theory Spec2Isabelle
  imports Complex_Main "HOL-Library.Word"
begin

section \<open>Values of the request and of the account store\<close>

text \<open>
  The admin routes of \<^verbatim>\<open>server/src/routes/users.ts\<close> read the parsed JSON body of the
  request without any type check (\<^verbatim>\<open>req.body\<close> is \<^verbatim>\<open>any\<close>), so what they test and
  store are JavaScript values. A field that is absent from the body reads as
  \<^verbatim>\<open>undefined\<close>. Numbers are the rationals (JSON has no NaN and no infinity).
\<close>

datatype jsval =
    JUndefined
  | JNull
  | JBool bool
  | JNum rat
  | JStr string
  | JArr "jsval list"
  | JObj "(string \<times> jsval) list"

text \<open>JavaScript's ToBoolean, as used by \<^verbatim>\<open>!x\<close> and \<^verbatim>\<open>x || y\<close>.\<close>

fun truthy :: "jsval \<Rightarrow> bool" where
  "truthy JUndefined = False"
| "truthy JNull = False"
| "truthy (JBool b) = b"
| "truthy (JNum n) = (n \<noteq> 0)"
| "truthy (JStr s) = (s \<noteq> [])"
| "truthy (JArr _) = True"
| "truthy (JObj _) = True"

text \<open>\<^verbatim>\<open>a || b\<close>\<close>

definition js_or :: "jsval \<Rightarrow> jsval \<Rightarrow> jsval" where
  "js_or a b = (if truthy a then a else b)"

text \<open>\<^verbatim>\<open>a !== undefined ? a : b\<close>\<close>

definition if_defined :: "jsval \<Rightarrow> jsval \<Rightarrow> jsval" where
  "if_defined a b = (if a \<noteq> JUndefined then a else b)"

text \<open>\<^verbatim>\<open>['employee', 'admin'].includes(permission)\<close>\<close>

definition valid_permission :: "jsval \<Rightarrow> bool" where
  "valid_permission p = (p = JStr ''employee'' \<or> p = JStr ''admin'')"

text \<open>The account object the routes hand to the service and get back from it.\<close>

record user =
  employeeId :: jsval
  name :: jsval
  password :: jsval
  permission :: jsval
  annualLeave :: jsval
  sickLeave :: jsval
  menstrualLeave :: jsval
  personalLeave :: jsval

text \<open>
  The request: the path parameter \<^verbatim>\<open>req.params.employeeId\<close>, the body as a map from
  field names to values, and \<^verbatim>\<open>req.user?.employeeId\<close> (\<open>JUndefined\<close> when there is no
  authenticated user or it has no such field). The body is the object the JSON parser
  of the application has made of the request; a field it does not have is absent from
  the map.
\<close>

record request =
  params_employeeId :: string
  body :: "string \<rightharpoonup> jsval"
  req_user_employeeId :: jsval

definition field :: "request \<Rightarrow> string \<Rightarrow> jsval" where
  "field req k = (case body req k of None \<Rightarrow> JUndefined | Some v \<Rightarrow> v)"

text \<open>
  The messages of the responses. In the source they are Chinese string literals:
  \<open>AllFieldsRequired\<close> is "all fields are required", \<open>InvalidPermission\<close> "the permission
  value is invalid", \<open>EmployeeIdExists\<close> "the employee id already exists", \<open>UserNotFound\<close>
  "the user does not exist", \<open>CannotDeleteSelf\<close> "you cannot delete your own account";
  \<open>UserAdded\<close>, \<open>UserUpdated\<close>, \<open>UserDeleted\<close> report success; the remaining ones are the
  messages of the \<^verbatim>\<open>catch\<close> blocks.
\<close>

datatype message =
    AllFieldsRequired | InvalidPermission | EmployeeIdExists | UserNotFound
  | CannotDeleteSelf | UserAdded | UserUpdated | UserDeleted
  | GetUsersFailed | AddUserFailed | UpdateUserFailed | DeleteUserFailed | ExportFailed

datatype payload = Message message | Data "user list"

record response =
  status :: nat
  success :: bool
  payload :: payload

definition fail :: "nat \<Rightarrow> message \<Rightarrow> response" where
  "fail code m = \<lparr>status = code, success = False, payload = Message m\<rparr>"

definition ok :: "message \<Rightarrow> response" where
  "ok m = \<lparr>status = 200, success = True, payload = Message m\<rparr>"

section \<open>The account service\<close>

text \<open>
  \<^verbatim>\<open>PersonalDataService\<close> is imported from \<^verbatim>\<open>../services/personalDataService\<close>, which
  is not among the sources. The routes are therefore written against any service: a
  record of its five methods over a store of type \<open>'s\<close>. A call either returns or
  throws (the routes catch every exception); a writing method also yields the store it
  leaves behind. The two reading methods are typed as reads: they cannot change the store.
\<close>

datatype 'a outcome = Threw | Returned 'a

record 's service =
  getAllUsers :: "'s \<Rightarrow> user list outcome"
  findByEmployeeId :: "'s \<Rightarrow> jsval \<Rightarrow> user option outcome"
  addUser :: "'s \<Rightarrow> user \<Rightarrow> unit outcome \<times> 's"
  updateUser :: "'s \<Rightarrow> jsval \<Rightarrow> user \<Rightarrow> unit outcome \<times> 's"
  deleteUser :: "'s \<Rightarrow> jsval \<Rightarrow> unit outcome \<times> 's"

section \<open>The routes of users.ts\<close>

text \<open>\<^verbatim>\<open>router.get('/')\<close>: the list of all accounts, each copied field by field.\<close>

definition get_users :: "'s service \<Rightarrow> 's \<Rightarrow> response" where
  "get_users svc s =
     (case getAllUsers svc s of
        Threw \<Rightarrow> fail 500 GetUsersFailed
      | Returned users \<Rightarrow>
          \<lparr>status = 200, success = True,
           payload = Data (map (\<lambda>u. \<lparr>employeeId = employeeId u, name = name u,
             password = password u, permission = permission u,
             annualLeave = annualLeave u, sickLeave = sickLeave u,
             menstrualLeave = menstrualLeave u, personalLeave = personalLeave u\<rparr>) users)\<rparr>)"

text \<open>\<^verbatim>\<open>router.post('/')\<close>: create an account.\<close>

definition post_user :: "'s service \<Rightarrow> request \<Rightarrow> 's \<Rightarrow> response \<times> 's" where
  "post_user svc req s =
     (let employeeId' = field req ''employeeId''; name' = field req ''name'';
          password' = field req ''password''; permission' = field req ''permission''
      in
      if \<not> truthy employeeId' \<or> \<not> truthy name' \<or> \<not> truthy password' \<or> \<not> truthy permission'
      then (fail 400 AllFieldsRequired, s)
      else if \<not> valid_permission permission'
      then (fail 400 InvalidPermission, s)
      else case findByEmployeeId svc s employeeId' of
        Threw \<Rightarrow> (fail 500 AddUserFailed, s)
      | Returned (Some existingUser) \<Rightarrow> (fail 409 EmployeeIdExists, s)
      | Returned None \<Rightarrow>
          (case addUser svc s
             \<lparr>employeeId = employeeId', name = name', password = password',
              permission = permission',
              annualLeave = js_or (field req ''annualLeave'') (JNum 14),
              sickLeave = js_or (field req ''sickLeave'') (JNum 30),
              menstrualLeave = js_or (field req ''menstrualLeave'') (JNum 3),
              personalLeave = js_or (field req ''personalLeave'') (JNum 14)\<rparr> of
             (Threw, s') \<Rightarrow> (fail 500 AddUserFailed, s')
           | (Returned _, s') \<Rightarrow> (ok UserAdded, s')))"

text \<open>\<^verbatim>\<open>router.put('/:employeeId')\<close>: update an account.\<close>

definition put_user :: "'s service \<Rightarrow> request \<Rightarrow> 's \<Rightarrow> response \<times> 's" where
  "put_user svc req s =
     (let employeeId' = JStr (params_employeeId req); name' = field req ''name'';
          password' = field req ''password''; permission' = field req ''permission''
      in
      if \<not> truthy name' \<or> \<not> truthy password' \<or> \<not> truthy permission'
      then (fail 400 AllFieldsRequired, s)
      else if \<not> valid_permission permission'
      then (fail 400 InvalidPermission, s)
      else case findByEmployeeId svc s employeeId' of
        Threw \<Rightarrow> (fail 500 UpdateUserFailed, s)
      | Returned None \<Rightarrow> (fail 404 UserNotFound, s)
      | Returned (Some existingUser) \<Rightarrow>
          (case updateUser svc s employeeId'
             \<lparr>employeeId = employeeId', name = name', password = password',
              permission = permission',
              annualLeave = if_defined (field req ''annualLeave'') (annualLeave existingUser),
              sickLeave = if_defined (field req ''sickLeave'') (sickLeave existingUser),
              menstrualLeave =
                if_defined (field req ''menstrualLeave'') (menstrualLeave existingUser),
              personalLeave =
                if_defined (field req ''personalLeave'')
                  (js_or (personalLeave existingUser) (JNum 14))\<rparr> of
             (Threw, s') \<Rightarrow> (fail 500 UpdateUserFailed, s')
           | (Returned _, s') \<Rightarrow> (ok UserUpdated, s')))"

text \<open>\<^verbatim>\<open>router.delete('/:employeeId')\<close>: delete an account.\<close>

definition delete_user :: "'s service \<Rightarrow> request \<Rightarrow> 's \<Rightarrow> response \<times> 's" where
  "delete_user svc req s =
     (let employeeId' = JStr (params_employeeId req) in
      case findByEmployeeId svc s employeeId' of
        Threw \<Rightarrow> (fail 500 DeleteUserFailed, s)
      | Returned None \<Rightarrow> (fail 404 UserNotFound, s)
      | Returned (Some existingUser) \<Rightarrow>
          if req_user_employeeId req = employeeId'
          then (fail 400 CannotDeleteSelf, s)
          else (case deleteUser svc s employeeId' of
                  (Threw, s') \<Rightarrow> (fail 500 DeleteUserFailed, s')
                | (Returned _, s') \<Rightarrow> (ok UserDeleted, s')))"

text \<open>
  The three account operations, as the router dispatches them on the request method.
\<close>

datatype account_operation = Create | Update | Delete

fun account_route ::
  "account_operation \<Rightarrow> 's service \<Rightarrow> request \<Rightarrow> 's \<Rightarrow> response \<times> 's" where
  "account_route Create svc req s = post_user svc req s"
| "account_route Update svc req s = put_user svc req s"
| "account_route Delete svc req s = delete_user svc req s"

section \<open>The error kinds of the specification\<close>

text \<open>
  The routes expose an error as a status code and a message. \<open>ValidationError\<close> is a 400
  with one of the two validation messages, \<open>ConflictError\<close> the 409, \<open>NotFoundError\<close> the
  404 and \<open>SelfDeletionError\<close> the 400 that refuses to delete the caller's own account.
\<close>

datatype error_kind = ValidationError | ConflictError | NotFoundError | SelfDeletionError

definition error_of :: "response \<Rightarrow> error_kind option" where
  "error_of r =
     (if r = fail 400 AllFieldsRequired \<or> r = fail 400 InvalidPermission then Some ValidationError
      else if r = fail 409 EmployeeIdExists then Some ConflictError
      else if r = fail 404 UserNotFound then Some NotFoundError
      else if r = fail 400 CannotDeleteSelf then Some SelfDeletionError
      else None)"

section \<open>An in-memory account store\<close>

text \<open>
  Modelled from the spec: \<^verbatim>\<open>PersonalDataService\<close> (its source file is missing). The
  specification describes the account store as an array of accounts in which an
  \<open>employeeId\<close> identifies one account (sections 3 and 9): here a list of accounts, looked up
  by \<open>employeeId\<close>, extended at the end, updated and deleted by \<open>employeeId\<close>. None of its
  methods throws.
\<close>

definition mem_getAllUsers :: "user list \<Rightarrow> user list outcome" where
  "mem_getAllUsers s = Returned s"

definition mem_findByEmployeeId :: "user list \<Rightarrow> jsval \<Rightarrow> user option outcome" where
  "mem_findByEmployeeId s eid = Returned (find (\<lambda>u. employeeId u = eid) s)"

definition mem_addUser :: "user list \<Rightarrow> user \<Rightarrow> unit outcome \<times> user list" where
  "mem_addUser s u = (Returned (), s @ [u])"

definition mem_updateUser :: "user list \<Rightarrow> jsval \<Rightarrow> user \<Rightarrow> unit outcome \<times> user list" where
  "mem_updateUser s eid u = (Returned (), map (\<lambda>x. if employeeId x = eid then u else x) s)"

definition mem_deleteUser :: "user list \<Rightarrow> jsval \<Rightarrow> unit outcome \<times> user list" where
  "mem_deleteUser s eid = (Returned (), filter (\<lambda>x. employeeId x \<noteq> eid) s)"

definition memService :: "user list service" where
  "memService = \<lparr>getAllUsers = mem_getAllUsers, findByEmployeeId = mem_findByEmployeeId,
     addUser = mem_addUser, updateUser = mem_updateUser, deleteUser = mem_deleteUser\<rparr>"

section \<open>The change-password form\<close>

text \<open>
  \<^verbatim>\<open>leave_system/src/components/user/ChangePassword.tsx\<close>. The three fields of the form
  are JavaScript strings: sequences of UTF-16 code units, which is what \<^verbatim>\<open>.length\<close>
  counts.
\<close>

type_synonym jsstring = "16 word list"

text \<open>
  \<^verbatim>\<open>String.prototype.trim\<close> removes the white space and the line terminators of
  ECMAScript from both ends.
\<close>

definition is_white_space :: "16 word \<Rightarrow> bool" where
  "is_white_space c =
     (c = 0x9 \<or> c = 0xA \<or> c = 0xB \<or> c = 0xC \<or> c = 0xD \<or> c = 0x20 \<or> c = 0xA0
      \<or> c = 0x1680 \<or> (0x2000 \<le> c \<and> c \<le> 0x200A) \<or> c = 0x2028 \<or> c = 0x2029
      \<or> c = 0x202F \<or> c = 0x205F \<or> c = 0x3000 \<or> c = 0xFEFF)"

definition trim :: "jsstring \<Rightarrow> jsstring" where
  "trim s = rev (dropWhile is_white_space (rev (dropWhile is_white_space s)))"

record form_data =
  currentPassword :: jsstring
  newPassword :: jsstring
  confirmPassword :: jsstring

text \<open>
  The messages of the form, Chinese string literals in the source: "enter the current
  password", "enter the new password", "the new password needs at least 4 characters",
  "confirm the new password", "the new password and its confirmation differ", "the new
  password must differ from the current one".
\<close>

datatype form_message =
    EnterCurrentPassword | EnterNewPassword | NewPasswordTooShort
  | ConfirmNewPassword | ConfirmationDiffers | NewPasswordSameAsCurrent

text \<open>
  \<^verbatim>\<open>ChangePasswordFormErrors\<close>: an object with three optional keys. A key is present
  exactly when a message has been assigned to it.
\<close>

record form_errors =
  err_currentPassword :: "form_message option"
  err_newPassword :: "form_message option"
  err_confirmPassword :: "form_message option"

text \<open>
  \<^verbatim>\<open>validateForm\<close>: the errors it sets, and its result
  \<^verbatim>\<open>Object.keys(newErrors).length === 0\<close>.
\<close>

definition validateForm :: "form_data \<Rightarrow> form_errors \<times> bool" where
  "validateForm formData =
     (let e0 = \<lparr>err_currentPassword = None, err_newPassword = None,
                err_confirmPassword = None\<rparr>;
          e1 = (if trim (currentPassword formData) = []
                then e0\<lparr>err_currentPassword := Some EnterCurrentPassword\<rparr> else e0);
          e2 = (if trim (newPassword formData) = []
                then e1\<lparr>err_newPassword := Some EnterNewPassword\<rparr>
                else if length (newPassword formData) < 4
                then e1\<lparr>err_newPassword := Some NewPasswordTooShort\<rparr> else e1);
          e3 = (if trim (confirmPassword formData) = []
                then e2\<lparr>err_confirmPassword := Some ConfirmNewPassword\<rparr>
                else if newPassword formData \<noteq> confirmPassword formData
                then e2\<lparr>err_confirmPassword := Some ConfirmationDiffers\<rparr> else e2);
          e4 = (if currentPassword formData = newPassword formData
                then e3\<lparr>err_newPassword := Some NewPasswordSameAsCurrent\<rparr> else e3)
      in (e4, err_currentPassword e4 = None \<and> err_newPassword e4 = None
               \<and> err_confirmPassword e4 = None))"

text \<open>The body of the \<^verbatim>\<open>PUT /user/change-password\<close> request.\<close>

record change_password_request =
  req_currentPassword :: jsstring
  req_newPassword :: jsstring

text \<open>
  \<^verbatim>\<open>handleSubmit\<close>, up to the call of the API: the errors shown, and the request sent
  to the server, if any. What it does with the server's answer is not modelled.
\<close>

definition handleSubmit :: "form_data \<Rightarrow> form_errors \<times> change_password_request option" where
  "handleSubmit formData =
     (case validateForm formData of
        (errors, valid) \<Rightarrow>
          if \<not> valid then (errors, None)
          else (errors, Some \<lparr>req_currentPassword = currentPassword formData,
                               req_newPassword = newPassword formData\<rparr>))"

section \<open>The CSV export\<close>

text \<open>
  \<^verbatim>\<open>router.post('/export')\<close> of \<^verbatim>\<open>users.ts\<close>. The date is read from the clock:
  \<^verbatim>\<open>getFullYear()\<close>, \<^verbatim>\<open>getMonth()\<close> (0 for January) and \<^verbatim>\<open>getDate()\<close>.
\<close>

record clock =
  fullYear :: nat
  month_index :: nat
  day_of_month :: nat

text \<open>\<^verbatim>\<open>String(n)\<close> of a natural number: its decimal digits.\<close>

definition digit :: "nat \<Rightarrow> char" where
  "digit d = char_of (48 + d)"

fun dec :: "nat \<Rightarrow> string" where
  "dec n = (if n < 10 then [digit n] else dec (n div 10) @ [digit (n mod 10)])"

declare dec.simps [simp del]

text \<open>\<^verbatim>\<open>s.padStart(n, c)\<close> for a one-character \<open>c\<close>.\<close>

definition padStart :: "nat \<Rightarrow> char \<Rightarrow> string \<Rightarrow> string" where
  "padStart n c s = replicate (n - length s) c @ s"

text \<open>
  The prefix of the file name, a Chinese literal in the source ("leave system permission
  data"), here as its UTF-8 bytes.
\<close>

definition filename_prefix :: string where
  "filename_prefix =
     [CHR 0xE8, CHR 0xAB, CHR 0x8B, CHR 0xE5, CHR 0x81, CHR 0x87, CHR 0xE7, CHR 0xB3,
      CHR 0xBB, CHR 0xE7, CHR 0xB5, CHR 0xB1, CHR 0xE6, CHR 0xAC, CHR 0x8A, CHR 0xE9,
      CHR 0x99, CHR 0x90, CHR 0xE8, CHR 0xB3, CHR 0x87, CHR 0xE6, CHR 0x96, CHR 0x99]"

definition export_filename :: "clock \<Rightarrow> string" where
  "export_filename now =
     (let year = fullYear now;
          month = padStart 2 CHR ''0'' (dec (month_index now + 1));
          day = padStart 2 CHR ''0'' (dec (day_of_month now))
      in filename_prefix @ dec year @ month @ day @ ''.csv'')"

text \<open>
  The ids of the CSV columns (each has a Chinese title in the source), and a row. The
  permission of a row is one of two Chinese labels: "manager" and "employee".
\<close>

definition csv_headers :: "string list" where
  "csv_headers = [''employeeId'', ''name'', ''password'', ''permission'', ''annualLeave'',
     ''sickLeave'', ''menstrualLeave'', ''personalLeave'']"

datatype permission_label = ManagerLabel | EmployeeLabel

record csv_row =
  row_employeeId :: jsval
  row_name :: jsval
  row_password :: jsval
  row_permission :: permission_label
  row_annualLeave :: jsval
  row_sickLeave :: jsval
  row_menstrualLeave :: jsval
  row_personalLeave :: jsval

definition format_user :: "user \<Rightarrow> csv_row" where
  "format_user u =
     \<lparr>row_employeeId = employeeId u, row_name = name u, row_password = password u,
      row_permission = (if permission u = JStr ''admin'' then ManagerLabel else EmployeeLabel),
      row_annualLeave = js_or (annualLeave u) (JNum 0),
      row_sickLeave = js_or (sickLeave u) (JNum 0),
      row_menstrualLeave = js_or (menstrualLeave u) (JNum 0),
      row_personalLeave = js_or (personalLeave u) (JNum 0)\<rparr>"

text \<open>
  The temporary directory \<^verbatim>\<open>server/temp\<close>: whether it exists, and its files by name. A
  file holds the columns and rows it was written from.
\<close>

type_synonym csv_file = "string list \<times> csv_row list"

record temp_dir =
  dir_exists :: bool
  files :: "string \<rightharpoonup> csv_file"

text \<open>
  What the environment does during one export: whether \<^verbatim>\<open>mkdirSync\<close> throws, whether
  \<^verbatim>\<open>writeCsvFile\<close> rejects, whether the read stream reaches its end (it emits \<^verbatim>\<open>'end'\<close>)
  or is cut short by a read error or by the client going away, and whether \<^verbatim>\<open>unlink\<close>
  fails.
\<close>

record export_io =
  mkdir_throws :: bool
  write_rejects :: bool
  stream_ends :: bool
  unlink_fails :: bool

text \<open>
  Modelled from the spec: \<^verbatim>\<open>writeCsvFile\<close> of \<^verbatim>\<open>../utils/csvUtils\<close> (its source file
  is missing). The specification says that the export file is created from the rows
  (section 6): the call writes the file under the given name, or rejects and writes none.
\<close>

definition writeCsvFile ::
  "export_io \<Rightarrow> string \<Rightarrow> csv_row list \<Rightarrow> string list \<Rightarrow> temp_dir \<Rightarrow> temp_dir option" where
  "writeCsvFile io path rows headers dir =
     (if write_rejects io then None
      else Some (dir\<lparr>files := (files dir)(path \<mapsto> (headers, rows))\<rparr>))"

text \<open>\<^verbatim>\<open>fs.unlink\<close>, whose failure the route only logs.\<close>

definition unlink :: "export_io \<Rightarrow> string \<Rightarrow> temp_dir \<Rightarrow> temp_dir" where
  "unlink io path dir =
     (if unlink_fails io then dir else dir\<lparr>files := (files dir)(path := None)\<rparr>)"

text \<open>
  The answer of the export: the JSON error of the \<^verbatim>\<open>catch\<close> block, the complete
  download (attachment name and content), or a download that was cut short.
\<close>

datatype export_response =
    ExportError response
  | CsvDownload string csv_file
  | CsvCutShort string

text \<open>
  The route. It only reads the account store. The file is removed by the listener of the
  stream's \<^verbatim>\<open>'end'\<close> event, the only place where the route calls \<^verbatim>\<open>unlink\<close>.
\<close>

definition export_users ::
  "'s service \<Rightarrow> clock \<Rightarrow> export_io \<Rightarrow> 's \<Rightarrow> temp_dir \<Rightarrow> export_response \<times> temp_dir" where
  "export_users svc now io s dir =
     (case getAllUsers svc s of
        Threw \<Rightarrow> (ExportError (fail 500 ExportFailed), dir)
      | Returned users \<Rightarrow>
          let filename = export_filename now;
              formattedUsers = map format_user users
          in
          if \<not> dir_exists dir \<and> mkdir_throws io
          then (ExportError (fail 500 ExportFailed), dir)
          else
            (case writeCsvFile io filename formattedUsers csv_headers
                    (dir\<lparr>dir_exists := True\<rparr>) of
               None \<Rightarrow> (ExportError (fail 500 ExportFailed), dir\<lparr>dir_exists := True\<rparr>)
             | Some dir' \<Rightarrow>
                 if stream_ends io
                 then (CsvDownload filename (csv_headers, formattedUsers),
                       unlink io filename dir')
                 else (CsvCutShort filename, dir')))"

text \<open>Reading a decimal numeral back, to state what a file name says.\<close>

definition digit_value :: "char \<Rightarrow> nat" where
  "digit_value c = of_char c - 48"

definition is_digit :: "char \<Rightarrow> bool" where
  "is_digit c = (48 \<le> (of_char c :: nat) \<and> (of_char c :: nat) \<le> 57)"

definition undec :: "string \<Rightarrow> nat" where
  "undec s = foldl (\<lambda>a c. 10 * a + digit_value c) 0 s"

section \<open>Accounts and requests for the examples\<close>

definition admin1 :: user where
  "admin1 = \<lparr>employeeId = JStr ''ADMIN001'', name = JStr ''Admin'', password = JStr ''admin123'',
     permission = JStr ''admin'', annualLeave = JNum 14, sickLeave = JNum 30,
     menstrualLeave = JNum 36, personalLeave = JNum 14\<rparr>"

definition emp1 :: user where
  "emp1 = \<lparr>employeeId = JStr ''EMP001'', name = JStr ''Zhang San'', password = JStr ''password123'',
     permission = JStr ''employee'', annualLeave = JNum 14, sickLeave = JNum 30,
     menstrualLeave = JNum 36, personalLeave = JNum 14\<rparr>"

definition store1 :: "user list" where
  "store1 = [emp1, admin1]"

definition delete_admin1_by_admin1 :: request where
  "delete_admin1_by_admin1 =
     \<lparr>params_employeeId = ''ADMIN001'', body = Map.empty,
      req_user_employeeId = JStr ''ADMIN001''\<rparr>"

text \<open>Creating \<open>EMP001\<close> again, with a complete body and with a body that has no name.\<close>

definition post_emp1_again :: request where
  "post_emp1_again =
     \<lparr>params_employeeId = [],
      body = [''employeeId'' \<mapsto> JStr ''EMP001'', ''name'' \<mapsto> JStr ''Li Si'',
              ''password'' \<mapsto> JStr ''pw'', ''permission'' \<mapsto> JStr ''employee''],
      req_user_employeeId = JStr ''ADMIN001''\<rparr>"

definition post_emp1_no_name :: request where
  "post_emp1_no_name =
     \<lparr>params_employeeId = [],
      body = [''employeeId'' \<mapsto> JStr ''EMP001''],
      req_user_employeeId = JStr ''ADMIN001''\<rparr>"

text \<open>A body whose permission is neither of the two values, sent to both routes.\<close>

definition bad_permission :: request where
  "bad_permission =
     \<lparr>params_employeeId = ''EMP001'',
      body = [''employeeId'' \<mapsto> JStr ''EMP002'', ''name'' \<mapsto> JStr ''Li Si'',
              ''password'' \<mapsto> JStr ''pw'', ''permission'' \<mapsto> JStr ''manager''],
      req_user_employeeId = JStr ''ADMIN001''\<rparr>"

text \<open>Requests for \<open>EMP404\<close>, which \<open>store1\<close> does not hold.\<close>

definition emp404_empty_body :: request where
  "emp404_empty_body =
     \<lparr>params_employeeId = ''EMP404'', body = Map.empty,
      req_user_employeeId = JStr ''ADMIN001''\<rparr>"

definition emp404_full_body :: request where
  "emp404_full_body =
     \<lparr>params_employeeId = ''EMP404'',
      body = [''name'' \<mapsto> JStr ''Nobody'', ''password'' \<mapsto> JStr ''pw'',
              ''permission'' \<mapsto> JStr ''employee''],
      req_user_employeeId = JStr ''ADMIN001''\<rparr>"

text \<open>Creating \<open>EMP002\<close> with no quota in the body, and \<open>EMP003\<close> with every quota 0.\<close>

definition post_emp2_no_quota :: request where
  "post_emp2_no_quota =
     \<lparr>params_employeeId = [],
      body = [''employeeId'' \<mapsto> JStr ''EMP002'', ''name'' \<mapsto> JStr ''Li Si'',
              ''password'' \<mapsto> JStr ''pw'', ''permission'' \<mapsto> JStr ''employee''],
      req_user_employeeId = JStr ''ADMIN001''\<rparr>"

definition emp2 :: user where
  "emp2 = \<lparr>employeeId = JStr ''EMP002'', name = JStr ''Li Si'', password = JStr ''pw'',
     permission = JStr ''employee'', annualLeave = JNum 14, sickLeave = JNum 30,
     menstrualLeave = JNum 3, personalLeave = JNum 14\<rparr>"

definition post_emp3_zero_quota :: request where
  "post_emp3_zero_quota =
     \<lparr>params_employeeId = [],
      body = [''employeeId'' \<mapsto> JStr ''EMP003'', ''name'' \<mapsto> JStr ''Wang Wu'',
              ''password'' \<mapsto> JStr ''pw'', ''permission'' \<mapsto> JStr ''employee'',
              ''annualLeave'' \<mapsto> JNum 0, ''sickLeave'' \<mapsto> JNum 0,
              ''menstrualLeave'' \<mapsto> JNum 0, ''personalLeave'' \<mapsto> JNum 0],
      req_user_employeeId = JStr ''ADMIN001''\<rparr>"

definition emp3 :: user where
  "emp3 = \<lparr>employeeId = JStr ''EMP003'', name = JStr ''Wang Wu'', password = JStr ''pw'',
     permission = JStr ''employee'', annualLeave = JNum 14, sickLeave = JNum 30,
     menstrualLeave = JNum 3, personalLeave = JNum 14\<rparr>"

text \<open>
  Updates of \<open>EMP001\<close>: one that renames the account and sets \<open>annualLeave\<close> to 20, one
  whose body has \<open>annualLeave\<close> only, one that sets \<open>personalLeave\<close> to 0, and one with the
  three required fields only.
\<close>

definition put_emp1_annual_20 :: request where
  "put_emp1_annual_20 =
     \<lparr>params_employeeId = ''EMP001'',
      body = [''name'' \<mapsto> JStr ''Zhang'', ''password'' \<mapsto> JStr ''pw2'',
              ''permission'' \<mapsto> JStr ''admin'', ''annualLeave'' \<mapsto> JNum 20],
      req_user_employeeId = JStr ''ADMIN001''\<rparr>"

definition emp1_annual_20 :: user where
  "emp1_annual_20 = \<lparr>employeeId = JStr ''EMP001'', name = JStr ''Zhang'', password = JStr ''pw2'',
     permission = JStr ''admin'', annualLeave = JNum 20, sickLeave = JNum 30,
     menstrualLeave = JNum 36, personalLeave = JNum 14\<rparr>"

definition put_emp1_only_annual :: request where
  "put_emp1_only_annual =
     \<lparr>params_employeeId = ''EMP001'', body = [''annualLeave'' \<mapsto> JNum 20],
      req_user_employeeId = JStr ''ADMIN001''\<rparr>"

definition put_emp1_personal_0 :: request where
  "put_emp1_personal_0 =
     \<lparr>params_employeeId = ''EMP001'',
      body = [''name'' \<mapsto> JStr ''Zhang San'', ''password'' \<mapsto> JStr ''password123'',
              ''permission'' \<mapsto> JStr ''employee'', ''personalLeave'' \<mapsto> JNum 0],
      req_user_employeeId = JStr ''ADMIN001''\<rparr>"

definition put_emp1_required_only :: request where
  "put_emp1_required_only =
     \<lparr>params_employeeId = ''EMP001'',
      body = [''name'' \<mapsto> JStr ''Zhang San'', ''password'' \<mapsto> JStr ''password123'',
              ''permission'' \<mapsto> JStr ''employee''],
      req_user_employeeId = JStr ''ADMIN001''\<rparr>"

text \<open>
  Forms: current password \<open>old1\<close> with new password \<open>new12\<close>; with the too short \<open>abc\<close>;
  and with the new password equal to the current one.
\<close>

definition form_good :: form_data where
  "form_good = \<lparr>currentPassword = [0x6F, 0x6C, 0x64, 0x31],
     newPassword = [0x6E, 0x65, 0x77, 0x31, 0x32],
     confirmPassword = [0x6E, 0x65, 0x77, 0x31, 0x32]\<rparr>"

definition form_short :: form_data where
  "form_short = \<lparr>currentPassword = [0x6F, 0x6C, 0x64, 0x31],
     newPassword = [0x61, 0x62, 0x63], confirmPassword = [0x61, 0x62, 0x63]\<rparr>"

definition form_same :: form_data where
  "form_same = \<lparr>currentPassword = [0x6F, 0x6C, 0x64, 0x31],
     newPassword = [0x6F, 0x6C, 0x64, 0x31], confirmPassword = [0x6F, 0x6C, 0x64, 0x31]\<rparr>"

text \<open>The first of November 2026, and an export whose stream is cut short.\<close>

definition nov1 :: clock where
  "nov1 = \<lparr>fullYear = 2026, month_index = 10, day_of_month = 1\<rparr>"

definition io_fine :: export_io where
  "io_fine = \<lparr>mkdir_throws = False, write_rejects = False, stream_ends = True,
     unlink_fails = False\<rparr>"

definition io_cut_short :: export_io where
  "io_cut_short = \<lparr>mkdir_throws = False, write_rejects = False, stream_ends = False,
     unlink_fails = False\<rparr>"

definition empty_dir :: temp_dir where
  "empty_dir = \<lparr>dir_exists = False, files = Map.empty\<rparr>"

section \<open>Evaluating the in-memory store\<close>

lemmas mem_simps = memService_def mem_getAllUsers_def mem_findByEmployeeId_def mem_addUser_def
  mem_updateUser_def mem_deleteUser_def

lemmas store_simps = store1_def emp1_def admin1_def

section \<open>Facts about the routes\<close>

lemma success_fail [simp]: "\<not> success (fail c m)"
  by (simp add: fail_def)

lemma success_ok [simp]: "success (ok m)"
  by (simp add: ok_def)

lemma error_of_fail_500 [simp]: "error_of (fail 500 m) = None"
  by (simp add: error_of_def fail_def)

lemma error_of_ok [simp]: "error_of (ok m) = None"
  by (simp add: error_of_def fail_def ok_def)

lemma valid_permission_truthy: "valid_permission p \<Longrightarrow> truthy p"
  by (auto simp: valid_permission_def)

lemma js_or_absent: "js_or JUndefined d = d"
  by (simp add: js_or_def)

lemma js_or_zero: "js_or (JNum 0) d = d"
  by (simp add: js_or_def)

lemma js_or_truthy: "truthy d \<Longrightarrow> truthy (js_or a d)"
  by (simp add: js_or_def)

text \<open>An error of the four kinds is answered before any writing method is called.\<close>

lemma post_user_error_frame:
  "error_of (fst (post_user svc req s)) = Some e \<Longrightarrow> snd (post_user svc req s) = s"
  by (auto simp: post_user_def Let_def split: outcome.splits option.splits prod.splits if_splits)

lemma put_user_error_frame:
  "error_of (fst (put_user svc req s)) = Some e \<Longrightarrow> snd (put_user svc req s) = s"
  by (auto simp: put_user_def Let_def split: outcome.splits option.splits prod.splits if_splits)

lemma delete_user_error_frame:
  "error_of (fst (delete_user svc req s)) = Some e \<Longrightarrow> snd (delete_user svc req s) = s"
  by (auto simp: delete_user_def Let_def split: outcome.splits option.splits prod.splits if_splits)

text \<open>What a successful creation and a successful update have done.\<close>

lemma post_user_success:
  assumes "post_user svc req s = (r, s')" and "success r"
  shows "r = ok UserAdded
     \<and> findByEmployeeId svc s (field req ''employeeId'') = Returned None
     \<and> addUser svc s
         \<lparr>employeeId = field req ''employeeId'', name = field req ''name'',
          password = field req ''password'', permission = field req ''permission'',
          annualLeave = js_or (field req ''annualLeave'') (JNum 14),
          sickLeave = js_or (field req ''sickLeave'') (JNum 30),
          menstrualLeave = js_or (field req ''menstrualLeave'') (JNum 3),
          personalLeave = js_or (field req ''personalLeave'') (JNum 14)\<rparr> = (Returned (), s')"
  using assms
  by (auto simp: post_user_def Let_def split: if_splits outcome.splits option.splits prod.splits)

lemma put_user_success:
  assumes "put_user svc req s = (r, s')" and "success r"
  shows "\<exists>old. r = ok UserUpdated
     \<and> truthy (field req ''name'') \<and> truthy (field req ''password'')
     \<and> valid_permission (field req ''permission'')
     \<and> findByEmployeeId svc s (JStr (params_employeeId req)) = Returned (Some old)
     \<and> updateUser svc s (JStr (params_employeeId req))
         \<lparr>employeeId = JStr (params_employeeId req), name = field req ''name'',
          password = field req ''password'', permission = field req ''permission'',
          annualLeave = if_defined (field req ''annualLeave'') (annualLeave old),
          sickLeave = if_defined (field req ''sickLeave'') (sickLeave old),
          menstrualLeave = if_defined (field req ''menstrualLeave'') (menstrualLeave old),
          personalLeave = if_defined (field req ''personalLeave'')
             (js_or (personalLeave old) (JNum 14))\<rparr> = (Returned (), s')"
  using assms
  by (auto simp: put_user_def Let_def split: if_splits outcome.splits option.splits prod.splits)

section \<open>Facts about decimal numerals\<close>

lemma digit_value_digit: "d < 10 \<Longrightarrow> digit_value (digit d) = d"
  by (simp add: digit_value_def digit_def)

lemma is_digit_digit: "d < 10 \<Longrightarrow> is_digit (digit d)"
  by (simp add: is_digit_def digit_def)

lemma undec_snoc: "undec (s @ [c]) = 10 * undec s + digit_value c"
  by (simp add: undec_def)

lemma undec_dec: "undec (dec n) = n"
proof (induction n rule: dec.induct)
  case (1 n)
  show ?case
  proof (cases "n < 10")
    case True
    then show ?thesis by (simp add: dec.simps [of n] undec_def digit_value_digit)
  next
    case False
    then have "undec (dec n) = 10 * undec (dec (n div 10)) + digit_value (digit (n mod 10))"
      by (simp add: dec.simps [of n] undec_snoc)
    also have "\<dots> = 10 * (n div 10) + n mod 10"
      using 1 False by (simp add: digit_value_digit)
    finally show ?thesis by simp
  qed
qed

lemma dec_digits: "list_all is_digit (dec n)"
proof (induction n rule: dec.induct)
  case (1 n)
  show ?case
  proof (cases "n < 10")
    case True
    then show ?thesis by (simp add: dec.simps [of n] is_digit_digit)
  next
    case False
    then show ?thesis using 1 by (simp add: dec.simps [of n] is_digit_digit)
  qed
qed

lemma length_dec_1: "n < 10 \<Longrightarrow> length (dec n) = 1"
  by (simp add: dec.simps [of n])

lemma length_dec_2: "10 \<le> n \<Longrightarrow> n < 100 \<Longrightarrow> length (dec n) = 2"
  by (simp add: dec.simps [of n] length_dec_1)

lemma length_dec_3: "100 \<le> n \<Longrightarrow> n < 1000 \<Longrightarrow> length (dec n) = 3"
  by (simp add: dec.simps [of n] length_dec_2)

lemma length_dec_4: "1000 \<le> n \<Longrightarrow> n < 10000 \<Longrightarrow> length (dec n) = 4"
  by (simp add: dec.simps [of n] length_dec_3)

lemma undec_zero_pad: "undec (CHR ''0'' # s) = undec s"
  by (simp add: undec_def digit_value_def)

lemma pad2:
  assumes "n < 100"
  shows "length (padStart 2 CHR ''0'' (dec n)) = 2"
    and "undec (padStart 2 CHR ''0'' (dec n)) = n"
    and "list_all is_digit (padStart 2 CHR ''0'' (dec n))"
proof -
  show "length (padStart 2 CHR ''0'' (dec n)) = 2"
  proof (cases "n < 10")
    case True then show ?thesis by (simp add: padStart_def length_dec_1)
  next
    case False then show ?thesis using assms by (simp add: padStart_def length_dec_2)
  qed
  show "undec (padStart 2 CHR ''0'' (dec n)) = n"
  proof (cases "n < 10")
    case True
    then have "padStart 2 CHR ''0'' (dec n) = CHR ''0'' # dec n"
      by (simp add: padStart_def length_dec_1)
    then show ?thesis by (simp add: undec_zero_pad undec_dec)
  next
    case False
    then have "padStart 2 CHR ''0'' (dec n) = dec n"
      using assms by (simp add: padStart_def length_dec_2)
    then show ?thesis by (simp add: undec_dec)
  qed
  show "list_all is_digit (padStart 2 CHR ''0'' (dec n))"
  proof -
    have "is_digit CHR ''0''" by (simp add: is_digit_def)
    then have "list_all is_digit (replicate (2 - length (dec n)) CHR ''0'')"
      by (induction "2 - length (dec n)") (simp_all add: list_all_iff)
    then show ?thesis by (simp add: padStart_def dec_digits)
  qed
qed

section \<open>Deleting one's own account\<close>

text \<open>
  C1. A \<^verbatim>\<open>DELETE /admin/users/:employeeId\<close> whose target exists (the lookup returns an
  account) and is the caller's own \<open>employeeId\<close> answers with the \<open>SelfDeletionError\<close>
  response and leaves the store as it was (\<open>deleteUser\<close> is not called): the lookup
  still returns the account, and a following \<^verbatim>\<open>GET /admin/users\<close> answers what it
  answered before, so the account is still listed. This holds for every service.
\<close>

theorem delete_self_refused:
  assumes "findByEmployeeId svc s (JStr (params_employeeId req)) = Returned (Some u)"
    and "req_user_employeeId req = JStr (params_employeeId req)"
  shows "error_of (fst (delete_user svc req s)) = Some SelfDeletionError
       \<and> fst (delete_user svc req s) = fail 400 CannotDeleteSelf
       \<and> snd (delete_user svc req s) = s
       \<and> findByEmployeeId svc (snd (delete_user svc req s)) (JStr (params_employeeId req))
           = Returned (Some u)
       \<and> get_users svc (snd (delete_user svc req s)) = get_users svc s"
  using assms by (simp add: delete_user_def error_of_def fail_def)

theorem delete_self_refused_witness:
  "findByEmployeeId memService store1 (JStr (params_employeeId delete_admin1_by_admin1))
     = Returned (Some admin1)
   \<and> req_user_employeeId delete_admin1_by_admin1
     = JStr (params_employeeId delete_admin1_by_admin1)
   \<and> error_of (fst (delete_user memService delete_admin1_by_admin1 store1))
     = Some SelfDeletionError
   \<and> snd (delete_user memService delete_admin1_by_admin1 store1) = store1
   \<and> get_users memService (snd (delete_user memService delete_admin1_by_admin1 store1))
     = \<lparr>status = 200, success = True, payload = Data [emp1, admin1]\<rparr>"
proof -
  have f: "findByEmployeeId memService store1
      (JStr (params_employeeId delete_admin1_by_admin1)) = Returned (Some admin1)"
    by (simp add: mem_simps store1_def delete_admin1_by_admin1_def emp1_def admin1_def)
  have c: "req_user_employeeId delete_admin1_by_admin1
      = JStr (params_employeeId delete_admin1_by_admin1)"
    by (simp add: delete_admin1_by_admin1_def)
  have g: "get_users memService store1
      = \<lparr>status = 200, success = True, payload = Data [emp1, admin1]\<rparr>"
    by (simp add: get_users_def mem_simps store1_def)
  note t = delete_self_refused [OF f c]
  from t have e: "error_of (fst (delete_user memService delete_admin1_by_admin1 store1))
      = Some SelfDeletionError"
    by (rule conjunct1)
  from t have st: "snd (delete_user memService delete_admin1_by_admin1 store1) = store1"
    by blast
  show ?thesis
    using f c e st g by simp
qed

section \<open>Errors commit nothing\<close>

text \<open>
  C9. When an account operation (create, update or delete) answers with one of the four
  errors \<open>ValidationError\<close>, \<open>ConflictError\<close>, \<open>NotFoundError\<close>, \<open>SelfDeletionError\<close>, the
  store it leaves is the store it was given: no writing method of the service has been
  called. Sending the same request again therefore gives the same answer and the same
  store. This holds for every service.
\<close>

theorem failed_account_operation_commits_nothing:
  assumes "error_of (fst (account_route operation svc req s)) = Some e"
  shows "snd (account_route operation svc req s) = s
       \<and> account_route operation svc req (snd (account_route operation svc req s))
           = account_route operation svc req s"
proof -
  have "snd (account_route operation svc req s) = s"
    using assms
    by (cases operation)
       (simp_all add: post_user_error_frame put_user_error_frame delete_user_error_frame)
  then show ?thesis by simp
qed

theorem failed_account_operation_commits_nothing_witness:
  "error_of (fst (account_route Create memService post_emp1_again store1)) = Some ConflictError
 \<and> snd (account_route Create memService post_emp1_again store1) = store1
 \<and> error_of (fst (account_route Update memService emp404_full_body store1)) = Some NotFoundError
 \<and> snd (account_route Update memService emp404_full_body store1) = store1
 \<and> error_of (fst (account_route Update memService bad_permission store1)) = Some ValidationError
 \<and> snd (account_route Update memService bad_permission store1) = store1
 \<and> error_of (fst (account_route Delete memService delete_admin1_by_admin1 store1))
      = Some SelfDeletionError
 \<and> snd (account_route Delete memService delete_admin1_by_admin1 store1) = store1"
proof -
  have 1: "error_of (fst (account_route Create memService post_emp1_again store1))
      = Some ConflictError"
    by (simp add: post_user_def Let_def field_def post_emp1_again_def valid_permission_def
        mem_simps store_simps error_of_def fail_def)
  have 2: "error_of (fst (account_route Update memService emp404_full_body store1))
      = Some NotFoundError"
    by (simp add: put_user_def Let_def field_def emp404_full_body_def valid_permission_def
        mem_simps store_simps error_of_def fail_def)
  have 3: "error_of (fst (account_route Update memService bad_permission store1))
      = Some ValidationError"
    by (simp add: put_user_def Let_def field_def bad_permission_def valid_permission_def
        mem_simps store_simps error_of_def fail_def)
  have 4: "error_of (fst (account_route Delete memService delete_admin1_by_admin1 store1))
      = Some SelfDeletionError"
    by (simp add: delete_user_def Let_def delete_admin1_by_admin1_def
        mem_simps store_simps error_of_def fail_def)
  show ?thesis
    using 1 2 3 4
      failed_account_operation_commits_nothing [OF 1]
      failed_account_operation_commits_nothing [OF 2]
      failed_account_operation_commits_nothing [OF 3]
      failed_account_operation_commits_nothing [OF 4]
    by simp
qed

section \<open>Invalid permission values\<close>

text \<open>
  C6. A create (\<^verbatim>\<open>POST /admin/users\<close>) or update (\<^verbatim>\<open>PUT /admin/users/:employeeId\<close>)
  request whose body has a \<open>permission\<close> field that is not one of \<open>'employee'\<close>, \<open>'admin'\<close>
  is answered with a \<open>ValidationError\<close>, and the store is left as it was. Both routes
  validate before they call the service, so this holds for every service.
\<close>

theorem invalid_permission_rejected:
  assumes "body req ''permission'' = Some p" and "\<not> valid_permission p"
  shows "error_of (fst (post_user svc req s)) = Some ValidationError
       \<and> snd (post_user svc req s) = s
       \<and> error_of (fst (put_user svc req s)) = Some ValidationError
       \<and> snd (put_user svc req s) = s"
  using assms by (simp add: post_user_def put_user_def Let_def field_def error_of_def)

theorem invalid_permission_rejected_witness:
  "body bad_permission ''permission'' = Some (JStr ''manager'')
 \<and> \<not> valid_permission (JStr ''manager'')
 \<and> error_of (fst (post_user memService bad_permission store1)) = Some ValidationError
 \<and> fst (post_user memService bad_permission store1) = fail 400 InvalidPermission
 \<and> snd (post_user memService bad_permission store1) = store1
 \<and> error_of (fst (put_user memService bad_permission store1)) = Some ValidationError
 \<and> snd (put_user memService bad_permission store1) = store1"
proof -
  have b: "body bad_permission ''permission'' = Some (JStr ''manager'')"
    by (simp add: bad_permission_def)
  have v: "\<not> valid_permission (JStr ''manager'')"
    by (simp add: valid_permission_def)
  have r: "fst (post_user memService bad_permission store1) = fail 400 InvalidPermission"
    by (simp add: post_user_def Let_def field_def bad_permission_def valid_permission_def)
  show ?thesis
    using b v r invalid_permission_rejected [OF b v, of memService store1] by simp
qed

section \<open>Duplicate and unknown employee ids\<close>

text \<open>
  C5, as amended. A \<^verbatim>\<open>POST /admin/users\<close> whose \<open>employeeId\<close> identifies an existing
  account (the lookup returns an account) creates and modifies nothing, whatever the rest
  of the body is. The route validates the body before it looks the account up: when the
  body passes the validation (\<open>employeeId\<close>, \<open>name\<close>, \<open>password\<close> and \<open>permission\<close> truthy,
  the permission one of the two values) the answer is the \<open>ConflictError\<close>; when it does
  not, the answer is a \<open>ValidationError\<close>. This holds for every service.
\<close>

theorem duplicate_employee_conflict:
  assumes "findByEmployeeId svc s (field req ''employeeId'') = Returned (Some u)"
  shows "error_of (fst (post_user svc req s))
           = (if truthy (field req ''employeeId'') \<and> truthy (field req ''name'')
                 \<and> truthy (field req ''password'')
                 \<and> valid_permission (field req ''permission'')
              then Some ConflictError else Some ValidationError)
       \<and> snd (post_user svc req s) = s"
  using assms
  by (auto simp: post_user_def Let_def error_of_def fail_def valid_permission_truthy)

text \<open>
  On \<open>store1\<close>, which holds \<open>EMP001\<close>: the complete body is answered with the
  \<open>ConflictError\<close>, the body without a name with a \<open>ValidationError\<close>.
\<close>

theorem duplicate_employee_conflict_witness:
  "findByEmployeeId memService store1 (field post_emp1_again ''employeeId'')
     = Returned (Some emp1)
 \<and> truthy (field post_emp1_again ''employeeId'') \<and> truthy (field post_emp1_again ''name'')
 \<and> truthy (field post_emp1_again ''password'')
 \<and> valid_permission (field post_emp1_again ''permission'')
 \<and> error_of (fst (post_user memService post_emp1_again store1)) = Some ConflictError
 \<and> snd (post_user memService post_emp1_again store1) = store1
 \<and> findByEmployeeId memService store1 (field post_emp1_no_name ''employeeId'')
     = Returned (Some emp1)
 \<and> \<not> truthy (field post_emp1_no_name ''name'')
 \<and> error_of (fst (post_user memService post_emp1_no_name store1)) = Some ValidationError
 \<and> snd (post_user memService post_emp1_no_name store1) = store1"
proof -
  have f: "findByEmployeeId memService store1 (field post_emp1_again ''employeeId'')
      = Returned (Some emp1)"
    by (simp add: field_def post_emp1_again_def mem_simps store_simps)
  have v: "truthy (field post_emp1_again ''employeeId'')"
      "truthy (field post_emp1_again ''name'')"
      "truthy (field post_emp1_again ''password'')"
      "valid_permission (field post_emp1_again ''permission'')"
    by (simp_all add: field_def post_emp1_again_def valid_permission_def)
  have g: "findByEmployeeId memService store1 (field post_emp1_no_name ''employeeId'')
      = Returned (Some emp1)"
    by (simp add: field_def post_emp1_no_name_def mem_simps store_simps)
  have n: "\<not> truthy (field post_emp1_no_name ''name'')"
    by (simp add: field_def post_emp1_no_name_def)
  have a: "error_of (fst (post_user memService post_emp1_again store1)) = Some ConflictError"
      "snd (post_user memService post_emp1_again store1) = store1"
    using duplicate_employee_conflict [OF f] v by simp_all
  have b: "error_of (fst (post_user memService post_emp1_no_name store1))
        = Some ValidationError"
      "snd (post_user memService post_emp1_no_name store1) = store1"
    using duplicate_employee_conflict [OF g] n by simp_all
  show ?thesis
    using f v g n a b by simp
qed

text \<open>
  The claim as stated fails: creating \<open>EMP001\<close>, which exists, with a body that has no
  name is answered with the \<open>ValidationError\<close> "all fields are required", not with the
  \<open>ConflictError\<close>.
\<close>

theorem duplicate_employee_conflict_counterexample:
  "findByEmployeeId memService store1 (field post_emp1_no_name ''employeeId'')
     = Returned (Some emp1)
 \<and> fst (post_user memService post_emp1_no_name store1) = fail 400 AllFieldsRequired
 \<and> error_of (fst (post_user memService post_emp1_no_name store1)) = Some ValidationError
 \<and> error_of (fst (post_user memService post_emp1_no_name store1)) \<noteq> Some ConflictError"
  by (simp add: post_user_def Let_def field_def post_emp1_no_name_def mem_simps store_simps
      error_of_def fail_def)

text \<open>
  C7, as amended. When the \<open>employeeId\<close> of the path identifies no account (the lookup
  returns nothing), a \<^verbatim>\<open>DELETE /admin/users/:employeeId\<close> is answered with the
  \<open>NotFoundError\<close>. The update route validates the body before it looks the account up:
  a \<^verbatim>\<open>PUT /admin/users/:employeeId\<close> whose body passes the validation (\<open>name\<close>,
  \<open>password\<close> and \<open>permission\<close> truthy, the permission one of the two values) is answered
  with the \<open>NotFoundError\<close>, and one whose body does not pass it is answered with a
  \<open>ValidationError\<close>. In each case the store is left as it was. This holds for every
  service.
\<close>

theorem unknown_employee_not_found:
  assumes "findByEmployeeId svc s (JStr (params_employeeId req)) = Returned None"
  shows "error_of (fst (delete_user svc req s)) = Some NotFoundError
       \<and> snd (delete_user svc req s) = s
       \<and> error_of (fst (put_user svc req s))
           = (if truthy (field req ''name'') \<and> truthy (field req ''password'')
                 \<and> valid_permission (field req ''permission'')
              then Some NotFoundError else Some ValidationError)
       \<and> snd (put_user svc req s) = s"
  using assms
  by (auto simp: put_user_def delete_user_def Let_def error_of_def fail_def
      valid_permission_truthy)

text \<open>
  On \<open>store1\<close>, which does not hold \<open>EMP404\<close>: the delete and the update with a complete
  body are answered with the \<open>NotFoundError\<close>, the update with an empty body with a
  \<open>ValidationError\<close>.
\<close>

theorem unknown_employee_not_found_witness:
  "findByEmployeeId memService store1 (JStr (params_employeeId emp404_full_body))
     = Returned None
 \<and> truthy (field emp404_full_body ''name'') \<and> truthy (field emp404_full_body ''password'')
 \<and> valid_permission (field emp404_full_body ''permission'')
 \<and> error_of (fst (delete_user memService emp404_full_body store1)) = Some NotFoundError
 \<and> snd (delete_user memService emp404_full_body store1) = store1
 \<and> error_of (fst (put_user memService emp404_full_body store1)) = Some NotFoundError
 \<and> snd (put_user memService emp404_full_body store1) = store1
 \<and> findByEmployeeId memService store1 (JStr (params_employeeId emp404_empty_body))
     = Returned None
 \<and> \<not> truthy (field emp404_empty_body ''name'')
 \<and> error_of (fst (put_user memService emp404_empty_body store1)) = Some ValidationError
 \<and> snd (put_user memService emp404_empty_body store1) = store1"
proof -
  have f: "findByEmployeeId memService store1 (JStr (params_employeeId emp404_full_body))
      = Returned None"
    by (simp add: emp404_full_body_def mem_simps store_simps)
  have v: "truthy (field emp404_full_body ''name'')"
      "truthy (field emp404_full_body ''password'')"
      "valid_permission (field emp404_full_body ''permission'')"
    by (simp_all add: field_def emp404_full_body_def valid_permission_def)
  have g: "findByEmployeeId memService store1 (JStr (params_employeeId emp404_empty_body))
      = Returned None"
    by (simp add: emp404_empty_body_def mem_simps store_simps)
  have n: "\<not> truthy (field emp404_empty_body ''name'')"
    by (simp add: field_def emp404_empty_body_def)
  have a: "error_of (fst (delete_user memService emp404_full_body store1))
        = Some NotFoundError"
      "snd (delete_user memService emp404_full_body store1) = store1"
      "error_of (fst (put_user memService emp404_full_body store1)) = Some NotFoundError"
      "snd (put_user memService emp404_full_body store1) = store1"
    using unknown_employee_not_found [OF f] v by simp_all
  have b: "error_of (fst (put_user memService emp404_empty_body store1))
        = Some ValidationError"
      "snd (put_user memService emp404_empty_body store1) = store1"
    using unknown_employee_not_found [OF g] n by simp_all
  show ?thesis
    using f v g n a b by simp
qed

text \<open>
  The claim as stated fails: an update of \<open>EMP404\<close>, which does not exist, with an empty
  body is answered with the \<open>ValidationError\<close> "all fields are required", not with the
  \<open>NotFoundError\<close>.
\<close>

theorem unknown_employee_not_found_counterexample:
  "findByEmployeeId memService store1 (JStr (params_employeeId emp404_empty_body))
     = Returned None
 \<and> fst (put_user memService emp404_empty_body store1) = fail 400 AllFieldsRequired
 \<and> error_of (fst (put_user memService emp404_empty_body store1)) = Some ValidationError
 \<and> error_of (fst (put_user memService emp404_empty_body store1)) \<noteq> Some NotFoundError"
  by (simp add: put_user_def Let_def field_def emp404_empty_body_def mem_simps store_simps
      error_of_def fail_def)

section \<open>Quotas of a created account\<close>

text \<open>
  C4. When a \<^verbatim>\<open>POST /admin/users\<close> creates an account, the account handed to the
  service's \<open>addUser\<close> has, for each quota the body does not specify, the default: 14 for
  \<open>annualLeave\<close>, 30 for \<open>sickLeave\<close>, 3 for \<open>menstrualLeave\<close>, 14 for \<open>personalLeave\<close>. The
  store after the request is the one \<open>addUser\<close> leaves. This holds for every service.
\<close>

theorem created_account_default_quotas:
  assumes "post_user svc req s = (r, s')" and "success r"
  shows "\<exists>u. addUser svc s u = (Returned (), s')
     \<and> employeeId u = field req ''employeeId''
     \<and> (body req ''annualLeave'' = None \<longrightarrow> annualLeave u = JNum 14)
     \<and> (body req ''sickLeave'' = None \<longrightarrow> sickLeave u = JNum 30)
     \<and> (body req ''menstrualLeave'' = None \<longrightarrow> menstrualLeave u = JNum 3)
     \<and> (body req ''personalLeave'' = None \<longrightarrow> personalLeave u = JNum 14)"
proof -
  define u where
    "u = \<lparr>employeeId = field req ''employeeId'', name = field req ''name'',
          password = field req ''password'', permission = field req ''permission'',
          annualLeave = js_or (field req ''annualLeave'') (JNum 14),
          sickLeave = js_or (field req ''sickLeave'') (JNum 30),
          menstrualLeave = js_or (field req ''menstrualLeave'') (JNum 3),
          personalLeave = js_or (field req ''personalLeave'') (JNum 14)\<rparr>"
  have a: "addUser svc s u = (Returned (), s')"
    using post_user_success [OF assms] by (simp only: u_def)
  have e: "employeeId u = field req ''employeeId''" by (simp add: u_def)
  have 1: "body req ''annualLeave'' = None \<longrightarrow> annualLeave u = JNum 14"
    by (simp add: u_def field_def js_or_absent)
  have 2: "body req ''sickLeave'' = None \<longrightarrow> sickLeave u = JNum 30"
    by (simp add: u_def field_def js_or_absent)
  have 3: "body req ''menstrualLeave'' = None \<longrightarrow> menstrualLeave u = JNum 3"
    by (simp add: u_def field_def js_or_absent)
  have 4: "body req ''personalLeave'' = None \<longrightarrow> personalLeave u = JNum 14"
    by (simp add: u_def field_def js_or_absent)
  show ?thesis
  proof (rule exI [of _ u], intro conjI)
  qed (fact a e 1 2 3 4)+
qed

theorem created_account_default_quotas_witness:
  "post_user memService post_emp2_no_quota store1 = (ok UserAdded, store1 @ [emp2])
 \<and> success (ok UserAdded)
 \<and> body post_emp2_no_quota ''annualLeave'' = None
 \<and> body post_emp2_no_quota ''sickLeave'' = None
 \<and> body post_emp2_no_quota ''menstrualLeave'' = None
 \<and> body post_emp2_no_quota ''personalLeave'' = None
 \<and> (\<exists>u. addUser memService store1 u = (Returned (), store1 @ [emp2])
       \<and> employeeId u = JStr ''EMP002''
       \<and> annualLeave u = JNum 14 \<and> sickLeave u = JNum 30
       \<and> menstrualLeave u = JNum 3 \<and> personalLeave u = JNum 14)
 \<and> findByEmployeeId memService (store1 @ [emp2]) (JStr ''EMP002'') = Returned (Some emp2)"
proof -
  have p: "post_user memService post_emp2_no_quota store1 = (ok UserAdded, store1 @ [emp2])"
    by (simp add: post_user_def Let_def field_def post_emp2_no_quota_def valid_permission_def
        js_or_def mem_simps store_simps emp2_def)
  have b: "body post_emp2_no_quota ''annualLeave'' = None"
      "body post_emp2_no_quota ''sickLeave'' = None"
      "body post_emp2_no_quota ''menstrualLeave'' = None"
      "body post_emp2_no_quota ''personalLeave'' = None"
    by (simp_all add: post_emp2_no_quota_def)
  have i: "field post_emp2_no_quota ''employeeId'' = JStr ''EMP002''"
    by (simp add: field_def post_emp2_no_quota_def)
  have f: "findByEmployeeId memService (store1 @ [emp2]) (JStr ''EMP002'')
      = Returned (Some emp2)"
    by (simp add: mem_simps store_simps emp2_def)
  have t: "\<exists>u. addUser memService store1 u = (Returned (), store1 @ [emp2])
       \<and> employeeId u = JStr ''EMP002''
       \<and> annualLeave u = JNum 14 \<and> sickLeave u = JNum 30
       \<and> menstrualLeave u = JNum 3 \<and> personalLeave u = JNum 14"
    using created_account_default_quotas [OF p success_ok] by (simp only: b i simp_thms)
  show ?thesis
    using p b f t by simp
qed

text \<open>
  C10. When a \<^verbatim>\<open>POST /admin/users\<close> creates an account and the body gives a quota as
  the number 0, the account handed to \<open>addUser\<close> has the default of that quota (14, 30, 3,
  14) in its place, since \<^verbatim>\<open>0 || 14.0\<close> is 14. No quota of a created account is 0,
  whatever the body: a zero quota cannot be set at creation. This holds for every service.
\<close>

theorem created_account_zero_quota_replaced:
  assumes "post_user svc req s = (r, s')" and "success r"
  shows "\<exists>u. addUser svc s u = (Returned (), s')
     \<and> employeeId u = field req ''employeeId''
     \<and> (body req ''annualLeave'' = Some (JNum 0) \<longrightarrow> annualLeave u = JNum 14)
     \<and> (body req ''sickLeave'' = Some (JNum 0) \<longrightarrow> sickLeave u = JNum 30)
     \<and> (body req ''menstrualLeave'' = Some (JNum 0) \<longrightarrow> menstrualLeave u = JNum 3)
     \<and> (body req ''personalLeave'' = Some (JNum 0) \<longrightarrow> personalLeave u = JNum 14)
     \<and> annualLeave u \<noteq> JNum 0 \<and> sickLeave u \<noteq> JNum 0
     \<and> menstrualLeave u \<noteq> JNum 0 \<and> personalLeave u \<noteq> JNum 0"
proof -
  define u where
    "u = \<lparr>employeeId = field req ''employeeId'', name = field req ''name'',
          password = field req ''password'', permission = field req ''permission'',
          annualLeave = js_or (field req ''annualLeave'') (JNum 14),
          sickLeave = js_or (field req ''sickLeave'') (JNum 30),
          menstrualLeave = js_or (field req ''menstrualLeave'') (JNum 3),
          personalLeave = js_or (field req ''personalLeave'') (JNum 14)\<rparr>"
  have a: "addUser svc s u = (Returned (), s')"
    using post_user_success [OF assms] by (simp only: u_def)
  have t: "truthy (annualLeave u)" "truthy (sickLeave u)" "truthy (menstrualLeave u)"
      "truthy (personalLeave u)"
    by (simp_all add: u_def js_or_truthy)
  have e: "employeeId u = field req ''employeeId''" by (simp add: u_def)
  have 1: "body req ''annualLeave'' = Some (JNum 0) \<longrightarrow> annualLeave u = JNum 14"
    by (simp add: u_def field_def js_or_zero)
  have 2: "body req ''sickLeave'' = Some (JNum 0) \<longrightarrow> sickLeave u = JNum 30"
    by (simp add: u_def field_def js_or_zero)
  have 3: "body req ''menstrualLeave'' = Some (JNum 0) \<longrightarrow> menstrualLeave u = JNum 3"
    by (simp add: u_def field_def js_or_zero)
  have 4: "body req ''personalLeave'' = Some (JNum 0) \<longrightarrow> personalLeave u = JNum 14"
    by (simp add: u_def field_def js_or_zero)
  have n: "annualLeave u \<noteq> JNum 0" "sickLeave u \<noteq> JNum 0"
    "menstrualLeave u \<noteq> JNum 0" "personalLeave u \<noteq> JNum 0"
    using t by auto
  show ?thesis
  proof (rule exI [of _ u], intro conjI)
  qed (fact a e 1 2 3 4 n)+
qed

theorem created_account_zero_quota_replaced_witness:
  "post_user memService post_emp3_zero_quota store1 = (ok UserAdded, store1 @ [emp3])
 \<and> success (ok UserAdded)
 \<and> body post_emp3_zero_quota ''annualLeave'' = Some (JNum 0)
 \<and> body post_emp3_zero_quota ''sickLeave'' = Some (JNum 0)
 \<and> body post_emp3_zero_quota ''menstrualLeave'' = Some (JNum 0)
 \<and> body post_emp3_zero_quota ''personalLeave'' = Some (JNum 0)
 \<and> (\<exists>u. addUser memService store1 u = (Returned (), store1 @ [emp3])
       \<and> employeeId u = JStr ''EMP003''
       \<and> annualLeave u = JNum 14 \<and> sickLeave u = JNum 30
       \<and> menstrualLeave u = JNum 3 \<and> personalLeave u = JNum 14)
 \<and> findByEmployeeId memService (store1 @ [emp3]) (JStr ''EMP003'') = Returned (Some emp3)"
proof -
  have p: "post_user memService post_emp3_zero_quota store1 = (ok UserAdded, store1 @ [emp3])"
    by (simp add: post_user_def Let_def field_def post_emp3_zero_quota_def
        valid_permission_def js_or_def mem_simps store_simps emp3_def)
  have b: "body post_emp3_zero_quota ''annualLeave'' = Some (JNum 0)"
      "body post_emp3_zero_quota ''sickLeave'' = Some (JNum 0)"
      "body post_emp3_zero_quota ''menstrualLeave'' = Some (JNum 0)"
      "body post_emp3_zero_quota ''personalLeave'' = Some (JNum 0)"
    by (simp_all add: post_emp3_zero_quota_def)
  have i: "field post_emp3_zero_quota ''employeeId'' = JStr ''EMP003''"
    by (simp add: field_def post_emp3_zero_quota_def)
  have f: "findByEmployeeId memService (store1 @ [emp3]) (JStr ''EMP003'')
      = Returned (Some emp3)"
    by (simp add: mem_simps store_simps emp3_def)
  from created_account_zero_quota_replaced [OF p success_ok]
  obtain u where u: "addUser memService store1 u = (Returned (), store1 @ [emp3])"
      "employeeId u = field post_emp3_zero_quota ''employeeId''"
      "body post_emp3_zero_quota ''annualLeave'' = Some (JNum 0) \<longrightarrow> annualLeave u = JNum 14"
      "body post_emp3_zero_quota ''sickLeave'' = Some (JNum 0) \<longrightarrow> sickLeave u = JNum 30"
      "body post_emp3_zero_quota ''menstrualLeave'' = Some (JNum 0)
         \<longrightarrow> menstrualLeave u = JNum 3"
      "body post_emp3_zero_quota ''personalLeave'' = Some (JNum 0)
         \<longrightarrow> personalLeave u = JNum 14"
    by (elim exE conjE)
  have t: "\<exists>u. addUser memService store1 u = (Returned (), store1 @ [emp3])
       \<and> employeeId u = JStr ''EMP003''
       \<and> annualLeave u = JNum 14 \<and> sickLeave u = JNum 30
       \<and> menstrualLeave u = JNum 3 \<and> personalLeave u = JNum 14"
  proof (rule exI [of _ u], intro conjI)
    show "addUser memService store1 u = (Returned (), store1 @ [emp3])" by (fact u(1))
    show "employeeId u = JStr ''EMP003''" using u(2) i by simp
    show "annualLeave u = JNum 14" using u(3) b(1) by simp
    show "sickLeave u = JNum 30" using u(4) b(2) by simp
    show "menstrualLeave u = JNum 3" using u(5) b(3) by simp
    show "personalLeave u = JNum 14" using u(6) b(4) by simp
  qed
  show ?thesis
    using p b f t by simp
qed

section \<open>Updating an account\<close>

text \<open>
  C3, as amended. A \<^verbatim>\<open>PUT /admin/users/:employeeId\<close> replaces the name, the password
  and the permission in every update: a body that omits one of the three (or gives it a
  falsy value) is answered with a \<open>ValidationError\<close> and changes nothing. When the update
  succeeds, the account handed to the service's \<open>updateUser\<close> has the name, password and
  permission of the body; each of the four quotas is the body's value when the body
  supplies one; an omitted \<open>annualLeave\<close>, \<open>sickLeave\<close> or \<open>menstrualLeave\<close> keeps the stored
  value, and an omitted \<open>personalLeave\<close> keeps the stored value when that value is truthy.
  The store after the request is the one \<open>updateUser\<close> leaves. This holds for every service.
\<close>

theorem update_replaces_supplied_fields:
  "(\<not> truthy (field req ''name'') \<or> \<not> truthy (field req ''password'')
      \<or> \<not> truthy (field req ''permission'') \<longrightarrow>
      error_of (fst (put_user svc req s)) = Some ValidationError \<and> snd (put_user svc req s) = s)
 \<and> (put_user svc req s = (r, s') \<and> success r \<longrightarrow>
      (\<exists>old new.
         findByEmployeeId svc s (JStr (params_employeeId req)) = Returned (Some old)
       \<and> updateUser svc s (JStr (params_employeeId req)) new = (Returned (), s')
       \<and> employeeId new = JStr (params_employeeId req)
       \<and> name new = field req ''name'' \<and> truthy (name new)
       \<and> password new = field req ''password'' \<and> truthy (password new)
       \<and> permission new = field req ''permission'' \<and> valid_permission (permission new)
       \<and> annualLeave new =
           (if field req ''annualLeave'' = JUndefined then annualLeave old
            else field req ''annualLeave'')
       \<and> sickLeave new =
           (if field req ''sickLeave'' = JUndefined then sickLeave old
            else field req ''sickLeave'')
       \<and> menstrualLeave new =
           (if field req ''menstrualLeave'' = JUndefined then menstrualLeave old
            else field req ''menstrualLeave'')
       \<and> (field req ''personalLeave'' \<noteq> JUndefined \<longrightarrow>
            personalLeave new = field req ''personalLeave'')
       \<and> (field req ''personalLeave'' = JUndefined \<and> truthy (personalLeave old) \<longrightarrow>
            personalLeave new = personalLeave old)))"
proof (intro conjI impI)
  assume "\<not> truthy (field req ''name'') \<or> \<not> truthy (field req ''password'')
      \<or> \<not> truthy (field req ''permission'')"
  then show "error_of (fst (put_user svc req s)) = Some ValidationError"
    by (simp add: put_user_def Let_def error_of_def)
next
  assume "\<not> truthy (field req ''name'') \<or> \<not> truthy (field req ''password'')
      \<or> \<not> truthy (field req ''permission'')"
  then show "snd (put_user svc req s) = s"
    by (simp add: put_user_def Let_def)
next
  assume a: "put_user svc req s = (r, s') \<and> success r"
  then obtain old where
    v: "truthy (field req ''name'')" "truthy (field req ''password'')"
       "valid_permission (field req ''permission'')"
    and f: "findByEmployeeId svc s (JStr (params_employeeId req)) = Returned (Some old)"
    and w: "updateUser svc s (JStr (params_employeeId req))
         \<lparr>employeeId = JStr (params_employeeId req), name = field req ''name'',
          password = field req ''password'', permission = field req ''permission'',
          annualLeave = if_defined (field req ''annualLeave'') (annualLeave old),
          sickLeave = if_defined (field req ''sickLeave'') (sickLeave old),
          menstrualLeave = if_defined (field req ''menstrualLeave'') (menstrualLeave old),
          personalLeave = if_defined (field req ''personalLeave'')
             (js_or (personalLeave old) (JNum 14))\<rparr> = (Returned (), s')"
    using put_user_success [of svc req s r s'] by blast
  define new where "new =
         \<lparr>employeeId = JStr (params_employeeId req), name = field req ''name'',
          password = field req ''password'', permission = field req ''permission'',
          annualLeave = if_defined (field req ''annualLeave'') (annualLeave old),
          sickLeave = if_defined (field req ''sickLeave'') (sickLeave old),
          menstrualLeave = if_defined (field req ''menstrualLeave'') (menstrualLeave old),
          personalLeave = if_defined (field req ''personalLeave'')
             (js_or (personalLeave old) (JNum 14))\<rparr>"
  have w': "updateUser svc s (JStr (params_employeeId req)) new = (Returned (), s')"
    using w by (simp only: new_def)
  have 1: "employeeId new = JStr (params_employeeId req)" by (simp add: new_def)
  have 2: "name new = field req ''name''" "truthy (name new)"
    using v by (simp_all add: new_def)
  have 3: "password new = field req ''password''" "truthy (password new)"
    using v by (simp_all add: new_def)
  have 4: "permission new = field req ''permission''" "valid_permission (permission new)"
    using v by (simp_all add: new_def)
  have 5: "annualLeave new =
           (if field req ''annualLeave'' = JUndefined then annualLeave old
            else field req ''annualLeave'')"
    by (simp add: new_def if_defined_def)
  have 6: "sickLeave new =
           (if field req ''sickLeave'' = JUndefined then sickLeave old
            else field req ''sickLeave'')"
    by (simp add: new_def if_defined_def)
  have 7: "menstrualLeave new =
           (if field req ''menstrualLeave'' = JUndefined then menstrualLeave old
            else field req ''menstrualLeave'')"
    by (simp add: new_def if_defined_def)
  have 8: "field req ''personalLeave'' \<noteq> JUndefined \<longrightarrow>
            personalLeave new = field req ''personalLeave''"
    by (simp add: new_def if_defined_def)
  have 9: "field req ''personalLeave'' = JUndefined \<and> truthy (personalLeave old) \<longrightarrow>
            personalLeave new = personalLeave old"
    by (simp add: new_def if_defined_def js_or_def)
  show "\<exists>old new.
         findByEmployeeId svc s (JStr (params_employeeId req)) = Returned (Some old)
       \<and> updateUser svc s (JStr (params_employeeId req)) new = (Returned (), s')
       \<and> employeeId new = JStr (params_employeeId req)
       \<and> name new = field req ''name'' \<and> truthy (name new)
       \<and> password new = field req ''password'' \<and> truthy (password new)
       \<and> permission new = field req ''permission'' \<and> valid_permission (permission new)
       \<and> annualLeave new =
           (if field req ''annualLeave'' = JUndefined then annualLeave old
            else field req ''annualLeave'')
       \<and> sickLeave new =
           (if field req ''sickLeave'' = JUndefined then sickLeave old
            else field req ''sickLeave'')
       \<and> menstrualLeave new =
           (if field req ''menstrualLeave'' = JUndefined then menstrualLeave old
            else field req ''menstrualLeave'')
       \<and> (field req ''personalLeave'' \<noteq> JUndefined \<longrightarrow>
            personalLeave new = field req ''personalLeave'')
       \<and> (field req ''personalLeave'' = JUndefined \<and> truthy (personalLeave old) \<longrightarrow>
            personalLeave new = personalLeave old)"
  proof (rule exI [of _ old], rule exI [of _ new], intro conjI)
  qed (fact f w' 1 2 3 4 5 6 7 8 9)+
qed

text \<open>
  On \<open>store1\<close>: the update of \<open>EMP001\<close> that supplies name, password, permission and
  \<open>annualLeave\<close> stores exactly these and keeps the three other quotas; the update whose
  body has \<open>annualLeave\<close> only is refused.
\<close>

theorem update_replaces_supplied_fields_witness:
  "put_user memService put_emp1_annual_20 store1 = (ok UserUpdated, [emp1_annual_20, admin1])
 \<and> success (ok UserUpdated)
 \<and> findByEmployeeId memService store1 (JStr ''EMP001'') = Returned (Some emp1)
 \<and> findByEmployeeId memService [emp1_annual_20, admin1] (JStr ''EMP001'')
      = Returned (Some emp1_annual_20)
 \<and> (\<exists>old new.
       findByEmployeeId memService store1 (JStr (params_employeeId put_emp1_annual_20))
         = Returned (Some old)
     \<and> updateUser memService store1 (JStr (params_employeeId put_emp1_annual_20)) new
         = (Returned (), [emp1_annual_20, admin1])
     \<and> name new = JStr ''Zhang'' \<and> password new = JStr ''pw2''
     \<and> permission new = JStr ''admin'' \<and> annualLeave new = JNum 20
     \<and> sickLeave new = sickLeave old \<and> menstrualLeave new = menstrualLeave old)
 \<and> \<not> truthy (field put_emp1_only_annual ''name'')
 \<and> error_of (fst (put_user memService put_emp1_only_annual store1)) = Some ValidationError
 \<and> snd (put_user memService put_emp1_only_annual store1) = store1"
proof -
  have p: "put_user memService put_emp1_annual_20 store1
      = (ok UserUpdated, [emp1_annual_20, admin1])"
    by (simp add: put_user_def Let_def field_def put_emp1_annual_20_def valid_permission_def
        js_or_def if_defined_def mem_simps store_simps emp1_annual_20_def)
  have f: "findByEmployeeId memService store1 (JStr ''EMP001'') = Returned (Some emp1)"
      "findByEmployeeId memService [emp1_annual_20, admin1] (JStr ''EMP001'')
        = Returned (Some emp1_annual_20)"
    by (simp_all add: mem_simps store_simps emp1_annual_20_def)
  have b: "field put_emp1_annual_20 ''name'' = JStr ''Zhang''"
      "field put_emp1_annual_20 ''password'' = JStr ''pw2''"
      "field put_emp1_annual_20 ''permission'' = JStr ''admin''"
      "field put_emp1_annual_20 ''annualLeave'' = JNum 20"
      "field put_emp1_annual_20 ''sickLeave'' = JUndefined"
      "field put_emp1_annual_20 ''menstrualLeave'' = JUndefined"
    by (simp_all add: field_def put_emp1_annual_20_def)
  have n: "\<not> truthy (field put_emp1_only_annual ''name'')"
    by (simp add: field_def put_emp1_only_annual_def)
  note t1 = update_replaces_supplied_fields
    [of put_emp1_annual_20 memService store1 "ok UserUpdated" "[emp1_annual_20, admin1]",
     THEN conjunct2, rule_format, OF conjI, OF p success_ok]
  note t2 = update_replaces_supplied_fields
    [of put_emp1_only_annual memService store1 "ok UserUpdated" store1,
     THEN conjunct1, rule_format, OF disjI1, OF n]
  from t1 obtain old new where
    on: "findByEmployeeId memService store1 (JStr (params_employeeId put_emp1_annual_20))
           = Returned (Some old)"
        "updateUser memService store1 (JStr (params_employeeId put_emp1_annual_20)) new
           = (Returned (), [emp1_annual_20, admin1])"
        "name new = field put_emp1_annual_20 ''name''"
        "password new = field put_emp1_annual_20 ''password''"
        "permission new = field put_emp1_annual_20 ''permission''"
        "annualLeave new =
           (if field put_emp1_annual_20 ''annualLeave'' = JUndefined then annualLeave old
            else field put_emp1_annual_20 ''annualLeave'')"
        "sickLeave new =
           (if field put_emp1_annual_20 ''sickLeave'' = JUndefined then sickLeave old
            else field put_emp1_annual_20 ''sickLeave'')"
        "menstrualLeave new =
           (if field put_emp1_annual_20 ''menstrualLeave'' = JUndefined then menstrualLeave old
            else field put_emp1_annual_20 ''menstrualLeave'')"
    by (elim exE conjE)
  have e: "\<exists>old new.
       findByEmployeeId memService store1 (JStr (params_employeeId put_emp1_annual_20))
         = Returned (Some old)
     \<and> updateUser memService store1 (JStr (params_employeeId put_emp1_annual_20)) new
         = (Returned (), [emp1_annual_20, admin1])
     \<and> name new = JStr ''Zhang'' \<and> password new = JStr ''pw2''
     \<and> permission new = JStr ''admin'' \<and> annualLeave new = JNum 20
     \<and> sickLeave new = sickLeave old \<and> menstrualLeave new = menstrualLeave old"
  proof (rule exI [of _ old], rule exI [of _ new], intro conjI)
    show "findByEmployeeId memService store1 (JStr (params_employeeId put_emp1_annual_20))
        = Returned (Some old)" by (fact on(1))
    show "updateUser memService store1 (JStr (params_employeeId put_emp1_annual_20)) new
        = (Returned (), [emp1_annual_20, admin1])" by (fact on(2))
    show "name new = JStr ''Zhang''" using on(3) b(1) by simp
    show "password new = JStr ''pw2''" using on(4) b(2) by simp
    show "permission new = JStr ''admin''" using on(5) b(3) by simp
    show "annualLeave new = JNum 20" using on(6) b(4) by simp
    show "sickLeave new = sickLeave old" using on(7) b(5) by simp
    show "menstrualLeave new = menstrualLeave old" using on(8) b(6) by simp
  qed
  show ?thesis
    using p f e n t2 by simp
qed

text \<open>
  The claim as stated fails in two ways. An update whose body supplies \<open>annualLeave\<close> only
  is refused, so the supplied value does not replace the stored one: partial replacement
  is not supported for name, password and permission. And after \<open>personalLeave\<close> has been
  set to 0, an update that omits \<open>personalLeave\<close> stores 14 in its place.
\<close>

theorem update_replaces_supplied_fields_counterexample:
  "body put_emp1_only_annual ''annualLeave'' = Some (JNum 20)
 \<and> put_user memService put_emp1_only_annual store1 = (fail 400 AllFieldsRequired, store1)
 \<and> findByEmployeeId memService store1 (JStr ''EMP001'') = Returned (Some emp1)
 \<and> annualLeave emp1 = JNum 14
 \<and> put_user memService put_emp1_personal_0 store1
      = (ok UserUpdated, [emp1\<lparr>personalLeave := JNum 0\<rparr>, admin1])
 \<and> body put_emp1_required_only ''personalLeave'' = None
 \<and> put_user memService put_emp1_required_only [emp1\<lparr>personalLeave := JNum 0\<rparr>, admin1]
      = (ok UserUpdated, [emp1\<lparr>personalLeave := JNum 14\<rparr>, admin1])"
  by (simp add: put_user_def Let_def field_def put_emp1_only_annual_def
      put_emp1_personal_0_def put_emp1_required_only_def valid_permission_def
      js_or_def if_defined_def mem_simps store_simps)

section \<open>Validation of a new password\<close>

text \<open>What \<open>validateForm\<close> refuses and what it lets through.\<close>

lemma validateForm_rejects:
  assumes "length (newPassword f) < 4 \<or> newPassword f = currentPassword f"
  shows "\<not> snd (validateForm f)"
proof (cases "currentPassword f = newPassword f")
  case True
  then show ?thesis by (simp add: validateForm_def Let_def)
next
  case False
  with assms have "length (newPassword f) < 4" by auto
  then show ?thesis by (auto simp add: validateForm_def Let_def)
qed

lemma validateForm_accepts:
  assumes "snd (validateForm f)"
  shows "4 \<le> length (newPassword f) \<and> newPassword f \<noteq> currentPassword f"
proof -
  have "\<not> (length (newPassword f) < 4 \<or> newPassword f = currentPassword f)"
    using assms validateForm_rejects [of f] by blast
  then show ?thesis by simp
qed

text \<open>
  C8. \<open>validateForm\<close> fails, and \<open>handleSubmit\<close> sends no request, whenever the new
  password has fewer than 4 characters (UTF-16 code units) or equals the current
  password. A request that is sent carries the current and the new password of the form,
  and its new password has at least 4 characters and differs from the current one.
\<close>

theorem change_password_validation:
  "(length (newPassword f) < 4 \<or> newPassword f = currentPassword f \<longrightarrow>
      \<not> snd (validateForm f) \<and> snd (handleSubmit f) = None)
 \<and> (snd (handleSubmit f) = Some r \<longrightarrow>
      snd (validateForm f)
    \<and> req_currentPassword r = currentPassword f \<and> req_newPassword r = newPassword f
    \<and> 4 \<le> length (req_newPassword r) \<and> req_newPassword r \<noteq> req_currentPassword r)"
proof (intro conjI impI)
  assume a: "length (newPassword f) < 4 \<or> newPassword f = currentPassword f"
  then show "\<not> snd (validateForm f)" by (rule validateForm_rejects)
  then show "snd (handleSubmit f) = None"
    by (cases "validateForm f") (simp add: handleSubmit_def)
next
  assume s: "snd (handleSubmit f) = Some r"
  then show v: "snd (validateForm f)"
    by (cases "validateForm f") (simp add: handleSubmit_def split: if_splits)
  from s show c: "req_currentPassword r = currentPassword f"
    by (cases "validateForm f") (auto simp: handleSubmit_def split: if_splits)
  from s show n: "req_newPassword r = newPassword f"
    by (cases "validateForm f") (auto simp: handleSubmit_def split: if_splits)
  from validateForm_accepts [OF v] show "4 \<le> length (req_newPassword r)"
    by (simp add: n)
  from validateForm_accepts [OF v] show "req_newPassword r \<noteq> req_currentPassword r"
    by (simp add: n c)
qed

text \<open>A too short new password, an unchanged one, and an accepted one.\<close>

lemmas form_simps = validateForm_def handleSubmit_def Let_def trim_def is_white_space_def

theorem change_password_validation_witness:
  "length (newPassword form_short) < 4
 \<and> snd (handleSubmit form_short) = None
 \<and> err_newPassword (fst (handleSubmit form_short)) = Some NewPasswordTooShort
 \<and> newPassword form_same = currentPassword form_same
 \<and> snd (handleSubmit form_same) = None
 \<and> err_newPassword (fst (handleSubmit form_same)) = Some NewPasswordSameAsCurrent
 \<and> snd (handleSubmit form_good)
      = Some \<lparr>req_currentPassword = [0x6F, 0x6C, 0x64, 0x31],
              req_newPassword = [0x6E, 0x65, 0x77, 0x31, 0x32]\<rparr>
 \<and> snd (validateForm form_good)"
proof -
  have 1: "length (newPassword form_short) < 4" by (simp add: form_short_def)
  have 2: "newPassword form_same = currentPassword form_same" by (simp add: form_same_def)
  have 3: "snd (handleSubmit form_good)
      = Some \<lparr>req_currentPassword = [0x6F, 0x6C, 0x64, 0x31],
              req_newPassword = [0x6E, 0x65, 0x77, 0x31, 0x32]\<rparr>"
    by (simp add: form_simps form_good_def)
  have 4: "err_newPassword (fst (handleSubmit form_short)) = Some NewPasswordTooShort"
    by (simp add: form_simps form_short_def)
  have 5: "err_newPassword (fst (handleSubmit form_same)) = Some NewPasswordSameAsCurrent"
    by (simp add: form_simps form_same_def)
  note a = change_password_validation [of form_short, THEN conjunct1, rule_format, OF disjI1, OF 1]
  note b = change_password_validation [of form_same, THEN conjunct1, rule_format, OF disjI2, OF 2]
  note c = change_password_validation [of form_good, THEN conjunct2, rule_format, OF 3]
  show ?thesis using 1 2 3 4 5 a b c by simp
qed

section \<open>The export file\<close>

text \<open>The name of the export file, and the fields of a row.\<close>

lemma export_filename_pattern:
  assumes "1000 \<le> fullYear now" and "fullYear now \<le> 9999"
    and "month_index now < 12" and "day_of_month now \<le> 31"
  shows "\<exists>yyyy mm dd. export_filename now = filename_prefix @ yyyy @ mm @ dd @ ''.csv''
        \<and> length yyyy = 4 \<and> length mm = 2 \<and> length dd = 2
        \<and> list_all is_digit yyyy \<and> list_all is_digit mm \<and> list_all is_digit dd
        \<and> undec yyyy = fullYear now \<and> undec mm = month_index now + 1
        \<and> undec dd = day_of_month now"
proof (rule exI [of _ "dec (fullYear now)"],
    rule exI [of _ "padStart 2 CHR ''0'' (dec (month_index now + 1))"],
    rule exI [of _ "padStart 2 CHR ''0'' (dec (day_of_month now))"], intro conjI)
  have m: "month_index now + 1 < 100" and d: "day_of_month now < 100"
    using assms by simp_all
  show "export_filename now = filename_prefix @ dec (fullYear now)
      @ padStart 2 CHR ''0'' (dec (month_index now + 1))
      @ padStart 2 CHR ''0'' (dec (day_of_month now)) @ ''.csv''"
    by (simp add: export_filename_def Let_def)
  show "length (dec (fullYear now)) = 4"
    using assms by (simp add: length_dec_4)
  show "length (padStart 2 CHR ''0'' (dec (month_index now + 1))) = 2"
    by (rule pad2(1) [OF m])
  show "length (padStart 2 CHR ''0'' (dec (day_of_month now))) = 2"
    by (rule pad2(1) [OF d])
  show "list_all is_digit (dec (fullYear now))"
    by (rule dec_digits)
  show "list_all is_digit (padStart 2 CHR ''0'' (dec (month_index now + 1)))"
    by (rule pad2(3) [OF m])
  show "list_all is_digit (padStart 2 CHR ''0'' (dec (day_of_month now)))"
    by (rule pad2(3) [OF d])
  show "undec (dec (fullYear now)) = fullYear now"
    by (rule undec_dec)
  show "undec (padStart 2 CHR ''0'' (dec (month_index now + 1))) = month_index now + 1"
    by (rule pad2(2) [OF m])
  show "undec (padStart 2 CHR ''0'' (dec (day_of_month now))) = day_of_month now"
    by (rule pad2(2) [OF d])
qed

lemma format_user_fields:
  "row_employeeId (format_user u) = employeeId u \<and> row_name (format_user u) = name u
 \<and> row_password (format_user u) = password u
 \<and> row_permission (format_user u)
     = (if permission u = JStr ''admin'' then ManagerLabel else EmployeeLabel)
 \<and> row_annualLeave (format_user u) = (if truthy (annualLeave u) then annualLeave u else JNum 0)
 \<and> row_sickLeave (format_user u) = (if truthy (sickLeave u) then sickLeave u else JNum 0)
 \<and> row_menstrualLeave (format_user u)
     = (if truthy (menstrualLeave u) then menstrualLeave u else JNum 0)
 \<and> row_personalLeave (format_user u)
     = (if truthy (personalLeave u) then personalLeave u else JNum 0)"
  by (simp add: format_user_def js_or_def)

text \<open>
  C2, as amended. The export only reads the account store. When the user list is read,
  the directory is there and the file is written: each row copies \<open>employeeId\<close>, \<open>name\<close>
  and \<open>password\<close>, carries the label of the permission (the manager label for \<open>'admin'\<close>,
  the employee label for anything else) and the four quotas (a falsy quota as 0); for a
  year of four digits the file name is the prefix, then the year, the month and the day of
  the clock as 4, 2 and 2 decimal digits, then \<open>.csv\<close>; when the read stream reaches its
  end the answer is the download of these rows under that name, and the file is removed
  (unless the unlink fails), leaving the other files as they were; when the stream is cut
  short the file is not removed: it stays in the directory with the rows.
  This holds for every service.
\<close>

theorem export_is_transient_projection:
  assumes users: "getAllUsers svc s = Returned users"
    and io: "\<not> mkdir_throws io" "\<not> write_rejects io"
    and date: "1000 \<le> fullYear now" "fullYear now \<le> 9999" "month_index now < 12"
      "day_of_month now \<le> 31"
  shows "(\<exists>yyyy mm dd. export_filename now = filename_prefix @ yyyy @ mm @ dd @ ''.csv''
        \<and> length yyyy = 4 \<and> length mm = 2 \<and> length dd = 2
        \<and> list_all is_digit yyyy \<and> list_all is_digit mm \<and> list_all is_digit dd
        \<and> undec yyyy = fullYear now \<and> undec mm = month_index now + 1
        \<and> undec dd = day_of_month now)
    \<and> (\<forall>u \<in> set users.
          row_employeeId (format_user u) = employeeId u \<and> row_name (format_user u) = name u
        \<and> row_password (format_user u) = password u
        \<and> row_permission (format_user u)
            = (if permission u = JStr ''admin'' then ManagerLabel else EmployeeLabel)
        \<and> row_annualLeave (format_user u)
            = (if truthy (annualLeave u) then annualLeave u else JNum 0)
        \<and> row_sickLeave (format_user u)
            = (if truthy (sickLeave u) then sickLeave u else JNum 0)
        \<and> row_menstrualLeave (format_user u)
            = (if truthy (menstrualLeave u) then menstrualLeave u else JNum 0)
        \<and> row_personalLeave (format_user u)
            = (if truthy (personalLeave u) then personalLeave u else JNum 0))
    \<and> (stream_ends io \<longrightarrow>
          fst (export_users svc now io s dir)
            = CsvDownload (export_filename now) (csv_headers, map format_user users))
    \<and> (stream_ends io \<and> \<not> unlink_fails io \<longrightarrow>
          files (snd (export_users svc now io s dir)) = (files dir)(export_filename now := None))
    \<and> (\<not> stream_ends io \<longrightarrow>
          fst (export_users svc now io s dir) = CsvCutShort (export_filename now)
        \<and> files (snd (export_users svc now io s dir))
            = (files dir)(export_filename now \<mapsto> (csv_headers, map format_user users)))"
proof (intro conjI)
  show "\<exists>yyyy mm dd. export_filename now = filename_prefix @ yyyy @ mm @ dd @ ''.csv''
        \<and> length yyyy = 4 \<and> length mm = 2 \<and> length dd = 2
        \<and> list_all is_digit yyyy \<and> list_all is_digit mm \<and> list_all is_digit dd
        \<and> undec yyyy = fullYear now \<and> undec mm = month_index now + 1
        \<and> undec dd = day_of_month now"
    by (rule export_filename_pattern [OF date])
  show "\<forall>u \<in> set users.
          row_employeeId (format_user u) = employeeId u \<and> row_name (format_user u) = name u
        \<and> row_password (format_user u) = password u
        \<and> row_permission (format_user u)
            = (if permission u = JStr ''admin'' then ManagerLabel else EmployeeLabel)
        \<and> row_annualLeave (format_user u)
            = (if truthy (annualLeave u) then annualLeave u else JNum 0)
        \<and> row_sickLeave (format_user u)
            = (if truthy (sickLeave u) then sickLeave u else JNum 0)
        \<and> row_menstrualLeave (format_user u)
            = (if truthy (menstrualLeave u) then menstrualLeave u else JNum 0)
        \<and> row_personalLeave (format_user u)
            = (if truthy (personalLeave u) then personalLeave u else JNum 0)"
    using format_user_fields by blast
  show "stream_ends io \<longrightarrow>
          fst (export_users svc now io s dir)
            = CsvDownload (export_filename now) (csv_headers, map format_user users)"
    using users io by (simp add: export_users_def Let_def writeCsvFile_def)
  show "stream_ends io \<and> \<not> unlink_fails io \<longrightarrow>
          files (snd (export_users svc now io s dir)) = (files dir)(export_filename now := None)"
    using users io by (simp add: export_users_def Let_def writeCsvFile_def unlink_def)
  show "\<not> stream_ends io \<longrightarrow>
          fst (export_users svc now io s dir) = CsvCutShort (export_filename now)
        \<and> files (snd (export_users svc now io s dir))
            = (files dir)(export_filename now \<mapsto> (csv_headers, map format_user users))"
    using users io by (simp add: export_users_def Let_def writeCsvFile_def)
qed

text \<open>
  The export of \<open>store1\<close> on the first of November 2026 into an empty directory: the
  download is complete and the directory is empty again.
\<close>

lemma export_filename_nov1: "export_filename nov1 = filename_prefix @ ''20261101.csv''"
  by (simp add: export_filename_def nov1_def dec.simps digit_def padStart_def Let_def
      char_of_eq_iff)

theorem export_is_transient_projection_witness:
  "getAllUsers memService store1 = Returned [emp1, admin1]
 \<and> \<not> mkdir_throws io_fine \<and> \<not> write_rejects io_fine
 \<and> 1000 \<le> fullYear nov1 \<and> fullYear nov1 \<le> 9999 \<and> month_index nov1 < 12
 \<and> day_of_month nov1 \<le> 31
 \<and> export_filename nov1 = filename_prefix @ ''2026'' @ ''11'' @ ''01'' @ ''.csv''
 \<and> stream_ends io_fine \<and> \<not> unlink_fails io_fine
 \<and> fst (export_users memService nov1 io_fine store1 empty_dir)
     = CsvDownload (export_filename nov1) (csv_headers, map format_user [emp1, admin1])
 \<and> files (snd (export_users memService nov1 io_fine store1 empty_dir)) = Map.empty
 \<and> row_permission (format_user emp1) = EmployeeLabel
 \<and> row_permission (format_user admin1) = ManagerLabel
 \<and> row_menstrualLeave (format_user emp1) = JNum 36"
proof -
  have g: "getAllUsers memService store1 = Returned [emp1, admin1]"
    by (simp add: mem_simps store1_def)
  have i: "\<not> mkdir_throws io_fine" "\<not> write_rejects io_fine"
    by (simp_all add: io_fine_def)
  have d: "1000 \<le> fullYear nov1" "fullYear nov1 \<le> 9999" "month_index nov1 < 12"
      "day_of_month nov1 \<le> 31"
    by (simp_all add: nov1_def)
  have e: "stream_ends io_fine" "\<not> unlink_fails io_fine"
    by (simp_all add: io_fine_def)
  have n: "export_filename nov1 = filename_prefix @ ''2026'' @ ''11'' @ ''01'' @ ''.csv''"
    by (simp add: export_filename_nov1)
  note t = export_is_transient_projection [OF g i d, of empty_dir]
  from t e have r: "fst (export_users memService nov1 io_fine store1 empty_dir)
      = CsvDownload (export_filename nov1) (csv_headers, map format_user [emp1, admin1])"
    by blast
  from t e have "files (snd (export_users memService nov1 io_fine store1 empty_dir))
      = (files empty_dir)(export_filename nov1 := None)"
    by blast
  then have f: "files (snd (export_users memService nov1 io_fine store1 empty_dir))
      = Map.empty"
    by (simp add: empty_dir_def)
  from t have p: "row_permission (format_user emp1) = EmployeeLabel"
      "row_permission (format_user admin1) = ManagerLabel"
      "row_menstrualLeave (format_user emp1) = JNum 36"
    by (simp_all add: emp1_def admin1_def)
  show ?thesis
    using g i d e n r f p by simp
qed

text \<open>
  The claim as stated fails: when the transfer fails because the stream is cut short, the
  temporary file is still in the directory after the request.
\<close>

theorem export_is_transient_projection_counterexample:
  "\<not> stream_ends io_cut_short
 \<and> fst (export_users memService nov1 io_cut_short store1 empty_dir)
     = CsvCutShort (filename_prefix @ ''20261101.csv'')
 \<and> files (snd (export_users memService nov1 io_cut_short store1 empty_dir))
      (filename_prefix @ ''20261101.csv'') = Some (csv_headers, map format_user store1)"
  by (simp add: export_users_def Let_def writeCsvFile_def io_cut_short_def empty_dir_def
      mem_simps export_filename_nov1)

end
